theory Spec2Isabelle
  imports Complex_Main
begin

section \<open>Python values\<close>

text \<open>
  The module \<^verbatim>\<open>app.py\<close> works on dictionaries decoded from JSON (the request body and
  the provider's \<^verbatim>\<open>info\<close> dictionary). A value is \<^verbatim>\<open>None\<close>, an \<^verbatim>\<open>int\<close>, a
  \<^verbatim>\<open>float\<close> or a \<^verbatim>\<open>str\<close>; booleans, lists and nested objects are not modelled.
  Python floats are modelled as exact rationals: rounding of binary floating point,
  \<^verbatim>\<open>nan\<close> and \<^verbatim>\<open>inf\<close> inside a dictionary are outside the model. The values numpy
  produces on a division by zero (\<^verbatim>\<open>inf\<close>, \<^verbatim>\<open>nan\<close>) are modelled, see \<open>npfloat\<close> below.
\<close>

datatype pyval = PyNone | PyInt int | PyFloat rat | PyStr string

type_synonym pydict = "string \<rightharpoonup> pyval"

text \<open>\<^verbatim>\<open>d.get(k, dflt)\<close>: the stored value when the key is present (also a stored
  \<^verbatim>\<open>None\<close>), the default otherwise.\<close>

definition dict_get :: "pydict \<Rightarrow> string \<Rightarrow> pyval \<Rightarrow> pyval" where
  "dict_get d k dflt = (case d k of None \<Rightarrow> dflt | Some v \<Rightarrow> v)"

text \<open>Truth value of \<^verbatim>\<open>if v:\<close>.\<close>

fun truthy :: "pyval \<Rightarrow> bool" where
  "truthy PyNone = False"
| "truthy (PyInt i) = (i \<noteq> 0)"
| "truthy (PyFloat r) = (r \<noteq> 0)"
| "truthy (PyStr s) = (s \<noteq> [])"

text \<open>The number a value stands for in arithmetic and in an ordering comparison with a
  number; \<open>None\<close> where Python raises \<^verbatim>\<open>TypeError\<close>.\<close>

fun as_num :: "pyval \<Rightarrow> rat option" where
  "as_num (PyInt i) = Some (of_int i)"
| "as_num (PyFloat r) = Some r"
| "as_num PyNone = None"
| "as_num (PyStr s) = None"

datatype exn = Exn string

text \<open>An exception is modelled by its text \<^verbatim>\<open>str(e)\<close>, the only thing the handler reads.\<close>

fun exn_text :: "exn \<Rightarrow> string" where
  "exn_text (Exn msg) = msg"

section \<open>Strings and number formatting\<close>

definition quote :: char where
  "quote = CHR 0x27"

definition digit_char :: "nat \<Rightarrow> char" where
  "digit_char n = ''0123456789'' ! n"

function show_nat :: "nat \<Rightarrow> string" where
  "show_nat n = (if n < 10 then [digit_char n] else show_nat (n div 10) @ [digit_char (n mod 10)])"
  by pat_completeness auto
termination
  by (relation "measure id") auto

declare show_nat.simps [simp del]

text \<open>Rounding to the nearest integer, ties to the even one: what \<^verbatim>\<open>round\<close> and the
  \<^verbatim>\<open>f\<close> format do on the exact value.\<close>

definition round_half_even :: "rat \<Rightarrow> int" where
  "round_half_even x =
     (let f = \<lfloor>x\<rfloor>; d = x - of_int f
      in if d < 1 / 2 then f else if d > 1 / 2 then f + 1 else if even f then f else f + 1)"

text \<open>\<^verbatim>\<open>round(x, 2)\<close> on a float.\<close>

definition py_round2 :: "rat \<Rightarrow> rat" where
  "py_round2 x = of_int (round_half_even (x * 100)) / 100"

text \<open>\<^verbatim>\<open>f"{x:.df}"\<close>: sign, integer part, point and exactly \<open>d\<close> decimals.\<close>

definition format_f :: "nat \<Rightarrow> rat \<Rightarrow> string" where
  "format_f d x =
     (let n = nat (round_half_even (\<bar>x\<bar> * 10 ^ d));
          fs = show_nat (n mod 10 ^ d)
      in (if x < 0 then ''-'' else []) @ show_nat (n div 10 ^ d) @ ''.''
         @ replicate (d - length fs) (CHR ''0'') @ fs)"

text \<open>\<^verbatim>\<open>str.upper\<close> and \<^verbatim>\<open>str.lower\<close> on ASCII letters; other characters are kept.\<close>

definition lower_letters :: string where
  "lower_letters = ''abcdefghijklmnopqrstuvwxyz''"

definition upper_letters :: string where
  "upper_letters = ''ABCDEFGHIJKLMNOPQRSTUVWXYZ''"

definition upper_char :: "char \<Rightarrow> char" where
  "upper_char c = (case map_of (zip lower_letters upper_letters) c of None \<Rightarrow> c | Some u \<Rightarrow> u)"

definition lower_char :: "char \<Rightarrow> char" where
  "lower_char c = (case map_of (zip upper_letters lower_letters) c of None \<Rightarrow> c | Some l \<Rightarrow> l)"

definition py_upper :: "string \<Rightarrow> string" where
  "py_upper s = map upper_char s"

definition py_lower :: "string \<Rightarrow> string" where
  "py_lower s = map lower_char s"

text \<open>\<^verbatim>\<open>str.strip()\<close>: ASCII whitespace removed at both ends.\<close>

definition is_space :: "char \<Rightarrow> bool" where
  "is_space c = (c \<in> set [CHR 0x09, CHR 0x0A, CHR 0x0B, CHR 0x0C, CHR 0x0D,
                            CHR 0x1C, CHR 0x1D, CHR 0x1E, CHR 0x1F, CHR 0x20])"

definition py_strip :: "string \<Rightarrow> string" where
  "py_strip s = rev (dropWhile is_space (rev (dropWhile is_space s)))"

text \<open>\<^verbatim>\<open>sub in s\<close> on strings.\<close>

fun starts_with :: "string \<Rightarrow> string \<Rightarrow> bool" where
  "starts_with [] s = True"
| "starts_with (p # ps) [] = False"
| "starts_with (p # ps) (c # cs) = (p = c \<and> starts_with ps cs)"

fun contains :: "string \<Rightarrow> string \<Rightarrow> bool" where
  "contains sub [] = (sub = [])"
| "contains sub (c # cs) = (starts_with sub (c # cs) \<or> contains sub cs)"

section \<open>The rational scorer (lines 31 to 79)\<close>

text \<open>
  The body of \<^verbatim>\<open>calculate_rational_score\<close> is one \<^verbatim>\<open>try\<close> block of four rules
  that update \<^verbatim>\<open>score\<close> and \<^verbatim>\<open>reasons\<close>. A rule is a function on the pair
  (score, reasons) that returns \<open>None\<close> where the source raises: the only operations that
  can raise are the comparisons and the product with \<^verbatim>\<open>industry_pe\<close>, on a value that is
  not a number, and they come before the rule changes anything. The handler
  \<^verbatim>\<open>except Exception\<close> prints the exception and goes on to the \<^verbatim>\<open>return\<close>, so the
  rules after the one that raised are not run and the pair is kept as it was.
\<close>

type_synonym acc = "int \<times> string list"

fun run_rules :: "(acc \<Rightarrow> acc option) list \<Rightarrow> acc \<Rightarrow> acc" where
  "run_rules [] st = st"
| "run_rules (r # rs) st = (case r st of None \<Rightarrow> st | Some st' \<Rightarrow> run_rules rs st')"

text \<open>\<^verbatim>\<open>max(-50, min(50, score))\<close>.\<close>

definition clamp50 :: "int \<Rightarrow> int" where
  "clamp50 score = max (- 50) (min 50 score)"

text \<open>Lines 37 to 47.\<close>

definition pe_rule :: "pydict \<Rightarrow> acc \<Rightarrow> acc option" where
  "pe_rule info st =
     (let pe_ratio = dict_get info ''trailingPE'' PyNone;
          industry_pe = dict_get info ''industryPE'' (PyInt 25)
      in if truthy pe_ratio then
           (case (as_num pe_ratio, as_num industry_pe) of
              (Some pe, Some ind) \<Rightarrow>
                if pe < ind * (8 / 10) then
                  Some (fst st - 20, snd st @ [''Low P/E ratio ('' @ format_f 2 pe
                          @ '' vs industry '' @ format_f 2 ind @ '')''])
                else if pe > ind * (12 / 10) then
                  Some (fst st + 20, snd st @ [''High P/E ratio ('' @ format_f 2 pe
                          @ '' vs industry '' @ format_f 2 ind @ '')''])
                else Some st
            | _ \<Rightarrow> None)
         else Some st)"

text \<open>Lines 49 to 56.\<close>

definition peg_rule :: "pydict \<Rightarrow> acc \<Rightarrow> acc option" where
  "peg_rule info st =
     (let peg_ratio = dict_get info ''pegRatio'' PyNone
      in if truthy peg_ratio then
           (case as_num peg_ratio of
              Some peg \<Rightarrow>
                if peg < 1 then
                  Some (fst st - 15, snd st @ [''Attractive PEG ratio ('' @ format_f 2 peg @ '')''])
                else if peg > 2 then
                  Some (fst st + 15, snd st @ [''High PEG ratio ('' @ format_f 2 peg @ '')''])
                else Some st
            | None \<Rightarrow> None)
         else Some st)"

text \<open>Lines 58 to 65.\<close>

definition pb_rule :: "pydict \<Rightarrow> acc \<Rightarrow> acc option" where
  "pb_rule info st =
     (let price_to_book = dict_get info ''priceToBook'' PyNone
      in if truthy price_to_book then
           (case as_num price_to_book of
              Some pb \<Rightarrow>
                if pb < 1 then
                  Some (fst st - 15, snd st @ [''Trading below book value ('' @ format_f 2 pb @ '')''])
                else if pb > 3 then
                  Some (fst st + 10, snd st @ [''High price-to-book ('' @ format_f 2 pb @ '')''])
                else Some st
            | None \<Rightarrow> None)
         else Some st)"

text \<open>Lines 67 to 74.\<close>

definition pm_rule :: "pydict \<Rightarrow> acc \<Rightarrow> acc option" where
  "pm_rule info st =
     (let profit_margin = dict_get info ''profitMargins'' PyNone
      in if truthy profit_margin then
           (case as_num profit_margin of
              Some pm \<Rightarrow>
                if pm > 20 / 100 then
                  Some (fst st - 10, snd st @ [''Strong profit margins ('' @ format_f 1 (pm * 100) @ ''%)''])
                else if pm < 5 / 100 then
                  Some (fst st + 10, snd st @ [''Weak profit margins ('' @ format_f 1 (pm * 100) @ ''%)''])
                else Some st
            | None \<Rightarrow> None)
         else Some st)"

text \<open>The first argument of the source, \<^verbatim>\<open>ticker_data\<close>, is not used by it.\<close>

definition calculate_rational_score :: "pydict \<Rightarrow> int \<times> string list" where
  "calculate_rational_score info =
     (let st = run_rules [pe_rule info, peg_rule info, pb_rule info, pm_rule info] (0, [])
      in (clamp50 (fst st), snd st))"

section \<open>numpy and pandas values\<close>

text \<open>
  A numpy float is a rational, an infinity or \<^verbatim>\<open>nan\<close>. Division by zero does not raise
  on these values: it gives an infinity or \<^verbatim>\<open>nan\<close>. Comparisons with \<^verbatim>\<open>nan\<close> are
  false. The sign of a zero is not modelled; a zero divisor counts as positive.
\<close>

datatype npfloat = Fin rat | PInf | NInf | NaN

definition inf_of_sign :: "rat \<Rightarrow> npfloat" where
  "inf_of_sign s = (if s > 0 then PInf else if s < 0 then NInf else NaN)"

fun np_neg :: "npfloat \<Rightarrow> npfloat" where
  "np_neg (Fin a) = Fin (- a)"
| "np_neg PInf = NInf"
| "np_neg NInf = PInf"
| "np_neg NaN = NaN"

fun np_add :: "npfloat \<Rightarrow> npfloat \<Rightarrow> npfloat" where
  "np_add NaN y = NaN"
| "np_add x NaN = NaN"
| "np_add (Fin a) (Fin b) = Fin (a + b)"
| "np_add PInf NInf = NaN"
| "np_add NInf PInf = NaN"
| "np_add PInf y = PInf"
| "np_add x PInf = PInf"
| "np_add NInf y = NInf"
| "np_add x NInf = NInf"

definition np_sub :: "npfloat \<Rightarrow> npfloat \<Rightarrow> npfloat" where
  "np_sub x y = np_add x (np_neg y)"

fun np_mul :: "npfloat \<Rightarrow> npfloat \<Rightarrow> npfloat" where
  "np_mul NaN y = NaN"
| "np_mul x NaN = NaN"
| "np_mul (Fin a) (Fin b) = Fin (a * b)"
| "np_mul (Fin a) PInf = inf_of_sign a"
| "np_mul (Fin a) NInf = inf_of_sign (- a)"
| "np_mul PInf (Fin b) = inf_of_sign b"
| "np_mul NInf (Fin b) = inf_of_sign (- b)"
| "np_mul PInf PInf = PInf"
| "np_mul NInf NInf = PInf"
| "np_mul PInf NInf = NInf"
| "np_mul NInf PInf = NInf"

fun np_div :: "npfloat \<Rightarrow> npfloat \<Rightarrow> npfloat" where
  "np_div NaN y = NaN"
| "np_div x NaN = NaN"
| "np_div (Fin a) (Fin b) = (if b = 0 then inf_of_sign a else Fin (a / b))"
| "np_div (Fin a) y = Fin 0"
| "np_div PInf (Fin b) = (if b < 0 then NInf else PInf)"
| "np_div NInf (Fin b) = (if b < 0 then PInf else NInf)"
| "np_div x y = NaN"

fun np_lt :: "npfloat \<Rightarrow> npfloat \<Rightarrow> bool" where
  "np_lt NaN y = False"
| "np_lt x NaN = False"
| "np_lt (Fin a) (Fin b) = (a < b)"
| "np_lt x NInf = False"
| "np_lt PInf y = False"
| "np_lt NInf y = True"
| "np_lt x PInf = True"

definition np_gt :: "npfloat \<Rightarrow> npfloat \<Rightarrow> bool" where
  "np_gt x y = np_lt y x"

fun np_format :: "nat \<Rightarrow> npfloat \<Rightarrow> string" where
  "np_format d (Fin a) = format_f d a"
| "np_format d PInf = ''inf''"
| "np_format d NInf = ''-inf''"
| "np_format d NaN = ''nan''"

text \<open>A pandas series of floats: \<open>None\<close> is the missing value \<^verbatim>\<open>NaN\<close>.\<close>

type_synonym series = "rat option list"

fun np_of :: "rat option \<Rightarrow> npfloat" where
  "np_of None = NaN"
| "np_of (Some a) = Fin a"

definition mean :: "rat list \<Rightarrow> rat" where
  "mean xs = sum_list xs / of_nat (length xs)"

definition last_n :: "nat \<Rightarrow> 'a list \<Rightarrow> 'a list" where
  "last_n n xs = drop (length xs - n) xs"

text \<open>\<^verbatim>\<open>s.rolling(window=w).mean().iloc[-1]\<close>: the mean of the last \<open>w\<close> values, missing
  when there are fewer than \<open>w\<close> values or one of them is missing.\<close>

definition rolling_mean_last :: "nat \<Rightarrow> series \<Rightarrow> rat option" where
  "rolling_mean_last w s =
     (if length s < w then None else map_option mean (those (last_n w s)))"

text \<open>\<^verbatim>\<open>s.diff()\<close>: the first entry is missing.\<close>

definition diff :: "rat list \<Rightarrow> series" where
  "diff xs = None # map (\<lambda>(a, b). Some (b - a)) (zip xs (tl xs))"

text \<open>\<^verbatim>\<open>s.where(cond, 0)\<close>: entries where the condition is false (so also the missing
  ones, on which every comparison is false) are replaced by 0.\<close>

definition where_else_0 :: "(rat \<Rightarrow> bool) \<Rightarrow> series \<Rightarrow> series" where
  "where_else_0 cond s =
     map (\<lambda>v. case v of None \<Rightarrow> Some 0 | Some x \<Rightarrow> if cond x then Some x else Some 0) s"

definition neg_series :: "series \<Rightarrow> series" where
  "neg_series s = map (map_option uminus) s"

text \<open>\<^verbatim>\<open>s.max()\<close> and \<^verbatim>\<open>s.min()\<close>, used on the 50 bars or more the caller holds; the
  value on the empty list is not reached.\<close>

fun series_max :: "rat list \<Rightarrow> rat" where
  "series_max [] = 0"
| "series_max (x # xs) = fold max xs x"

fun series_min :: "rat list \<Rightarrow> rat" where
  "series_min [] = 0"
| "series_min (x # xs) = fold min xs x"

section \<open>The adaptive scorer (lines 81 to 141)\<close>

text \<open>A daily bar of the price history, with the columns the scorer reads. The handle
  \<^verbatim>\<open>yf.Ticker(ticker)\<close> gives the \<^verbatim>\<open>info\<close> dictionary and the history of one year;
  either access may raise.\<close>

record bar =
  Close :: rat
  High :: rat
  Low :: rat

record yf_ticker =
  stock_info :: "exn + pydict"
  stock_history :: "exn + bar list"

text \<open>Lines 97 to 102.\<close>

definition ma50_rule :: "rat \<Rightarrow> npfloat \<Rightarrow> acc \<Rightarrow> acc option" where
  "ma50_rule current_price ma_50 st =
     (if np_lt (Fin current_price) (np_mul ma_50 (Fin (95 / 100))) then
        Some (fst st - 15, snd st @ [''Trading below 50-day MA ($'' @ np_format 2 ma_50 @ '')''])
      else if np_gt (Fin current_price) (np_mul ma_50 (Fin (105 / 100))) then
        Some (fst st + 15, snd st @ [''Trading above 50-day MA ($'' @ np_format 2 ma_50 @ '')''])
      else Some st)"

text \<open>Lines 104 to 110.\<close>

definition ma200_rule :: "nat \<Rightarrow> rat \<Rightarrow> npfloat \<Rightarrow> acc \<Rightarrow> acc option" where
  "ma200_rule len current_price ma_200 st =
     (if len \<ge> 200 then
        (if np_lt (Fin current_price) (np_mul ma_200 (Fin (90 / 100))) then
           Some (fst st - 20, snd st @ [''Significantly below 200-day MA ($'' @ np_format 2 ma_200 @ '')''])
         else if np_gt (Fin current_price) (np_mul ma_200 (Fin (110 / 100))) then
           Some (fst st + 20, snd st @ [''Significantly above 200-day MA ($'' @ np_format 2 ma_200 @ '')''])
         else Some st)
      else Some st)"

text \<open>Lines 112 to 124.\<close>

definition rsi_rule :: "rat list \<Rightarrow> acc \<Rightarrow> acc option" where
  "rsi_rule closes st =
     (let delta = diff closes;
          gain = np_of (rolling_mean_last 14 (where_else_0 (\<lambda>d. d > 0) delta));
          loss = np_of (rolling_mean_last 14 (neg_series (where_else_0 (\<lambda>d. d < 0) delta)));
          rs = np_div gain loss;
          current_rsi = np_sub (Fin 100) (np_div (Fin 100) (np_add (Fin 1) rs))
      in if np_lt current_rsi (Fin 30) then
           Some (fst st - 15, snd st @ [''Oversold RSI ('' @ np_format 1 current_rsi @ '')''])
         else if np_gt current_rsi (Fin 70) then
           Some (fst st + 15, snd st @ [''Overbought RSI ('' @ np_format 1 current_rsi @ '')''])
         else Some st)"

text \<open>Lines 126 to 136. The subtractions raise on a 52-week bound that is stored in
  \<^verbatim>\<open>info\<close> and is not a number.\<close>

definition range_rule :: "pydict \<Rightarrow> bar list \<Rightarrow> rat \<Rightarrow> acc \<Rightarrow> acc option" where
  "range_rule info df current_price st =
     (let week_52_high = dict_get info ''fiftyTwoWeekHigh'' (PyFloat (series_max (map High df)));
          week_52_low = dict_get info ''fiftyTwoWeekLow'' (PyFloat (series_min (map Low df)))
      in case (as_num week_52_high, as_num week_52_low) of
           (Some hi, Some lo) \<Rightarrow>
             (let range_position = np_div (Fin (current_price - lo)) (Fin (hi - lo))
              in if np_lt range_position (Fin (25 / 100)) then
                   Some (fst st - 10, snd st @ [''Near 52-week low (''
                           @ np_format 1 (np_mul range_position (Fin 100)) @ ''% of range)''])
                 else if np_gt range_position (Fin (75 / 100)) then
                   Some (fst st + 10, snd st @ [''Near 52-week high (''
                           @ np_format 1 (np_mul range_position (Fin 100)) @ ''% of range)''])
                 else Some st)
         | _ \<Rightarrow> None)"

text \<open>When \<^verbatim>\<open>history\<close> raises, nothing has been added yet and the function returns
  \<^verbatim>\<open>max(-50, min(50, 0))\<close> with no reason.\<close>

definition calculate_adaptive_score :: "yf_ticker \<Rightarrow> pydict \<Rightarrow> int \<times> string list" where
  "calculate_adaptive_score ticker_data info =
     (case stock_history ticker_data of
        Inl e \<Rightarrow> (clamp50 0, [])
      | Inr df \<Rightarrow>
          if length df < 50 then (0, [''Insufficient historical data''])
          else
            (let closes = map Close df;
                 current_price = last closes;
                 ma_50 = np_of (rolling_mean_last 50 (map Some closes));
                 ma_200 = np_of (rolling_mean_last 200 (map Some closes));
                 st = run_rules [ma50_rule current_price ma_50,
                                 ma200_rule (length df) current_price ma_200,
                                 rsi_rule closes,
                                 range_rule info df current_price] (0, [])
             in (clamp50 (fst st), snd st)))"

section \<open>The cache (lines 14 to 29)\<close>

text \<open>
  \<^verbatim>\<open>datetime.now()\<close> is an input of the model, in microseconds; nothing is assumed about
  successive readings. \<^verbatim>\<open>CACHE_DURATION = timedelta(minutes=10)\<close>.
\<close>

type_synonym time = int

definition CACHE_DURATION :: int where
  "CACHE_DURATION = 10 * 60 * 1000000"

text \<open>The response dictionary built at lines 224 to 244, which is what the cache stores.\<close>

record analysis =
  ticker :: string
  company_name :: pyval
  current_price :: pyval
  rational_score :: int
  adaptive_score :: int
  combined_score :: rat
  recommendation :: string
  signal_class :: string
  rational_reasons :: "string list"
  adaptive_reasons :: "string list"
  rational_weight :: rat
  adaptive_weight :: rat
  pe_ratio :: pyval
  forward_pe :: pyval
  peg_ratio :: pyval
  price_to_book :: pyval
  market_cap :: pyval
  sector :: pyval
  industry :: pyval

type_synonym cache = "string \<rightharpoonup> (analysis \<times> time)"

text \<open>
  \<^verbatim>\<open>get_cached_data\<close> reads the global dictionary and never assigns to it; the model
  returns the dictionary next to the result so that this is part of what is proved.
\<close>

definition get_cached_data :: "time \<Rightarrow> string \<Rightarrow> cache \<Rightarrow> analysis option \<times> cache" where
  "get_cached_data now tk c =
     (case c tk of
        None \<Rightarrow> (None, c)
      | Some (data, timestamp) \<Rightarrow>
          if now - timestamp < CACHE_DURATION then (Some data, c) else (None, c))"

definition cache_data :: "time \<Rightarrow> string \<Rightarrow> analysis \<Rightarrow> cache \<Rightarrow> cache" where
  "cache_data now tk data c = c(tk \<mapsto> (data, now))"

section \<open>Recommendation bucketing (lines 166 to 180 and 208 to 222)\<close>

text \<open>The same chain of comparisons stands twice in \<^verbatim>\<open>analyze\<close>; it yields the
  recommendation and the signal class.\<close>

definition recommend :: "rat \<Rightarrow> string \<times> string" where
  "recommend combined =
     (if combined < - 20 then (''STRONG BUY'', ''strong-buy'')
      else if combined < - 5 then (''BUY'', ''buy'')
      else if combined > 20 then (''STRONG SELL'', ''strong-sell'')
      else if combined > 5 then (''SELL'', ''sell'')
      else (''HOLD'', ''hold''))"

text \<open>\<^verbatim>\<open>(rational_score * rational_weight) + (adaptive_score * adaptive_weight)\<close> with
  \<^verbatim>\<open>adaptive_weight = 1 - rational_weight\<close> (lines 163 to 164 and 205 to 206); the
  integer scores become floats in the products.\<close>

definition combine :: "rat \<Rightarrow> rat \<Rightarrow> rat \<Rightarrow> rat" where
  "combine r a w = r * w + a * (1 - w)"

section \<open>The request handler (lines 147 to 255)\<close>

text \<open>
  What the handler reads from the outside is an input of the model:
  \<^item> the request: \<^verbatim>\<open>request.json\<close> gives a dictionary or raises (a body that is JSON
    but no object raises at \<^verbatim>\<open>data.get\<close> and is an \<open>Inl\<close> as well);
  \<^item> the clock, read once in \<^verbatim>\<open>get_cached_data\<close> and once in \<^verbatim>\<open>cache_data\<close>, after
    \<^verbatim>\<open>time.sleep(2)\<close> and the fetch, which have no other effect here;
  \<^item> the data provider, \<^verbatim>\<open>yf.Ticker(ticker)\<close>;
  \<^item> the builtin \<^verbatim>\<open>float\<close> on a string: the number it parses, or \<open>None\<close> where it raises
    \<^verbatim>\<open>ValueError\<close>. Every result below holds for any such function.
  \<^verbatim>\<open>jsonify\<close> is taken to succeed: a response is its dictionary and its status.
\<close>

type_synonym request = "exn + pydict"

record env =
  now_lookup :: time
  now_store :: time
  yf_Ticker :: "string \<Rightarrow> yf_ticker"
  float_of_str :: "string \<Rightarrow> rat option"

datatype body = Error string | Result analysis

type_synonym response = "body \<times> nat"

text \<open>\<^verbatim>\<open>float(v)\<close>, with the texts of Python 3.10 and later; the \<^verbatim>\<open>repr\<close> of the string
  in the text is written without escapes.\<close>

fun py_float :: "(string \<Rightarrow> rat option) \<Rightarrow> pyval \<Rightarrow> exn + rat" where
  "py_float parse (PyInt i) = Inr (of_int i)"
| "py_float parse (PyFloat r) = Inr r"
| "py_float parse (PyStr s) =
     (case parse s of
        Some r \<Rightarrow> Inr r
      | None \<Rightarrow> Inl (Exn (''could not convert string to float: '' @ [quote] @ s @ [quote])))"
| "py_float parse PyNone =
     Inl (Exn (''float() argument must be a string or a real number, not ''
               @ [quote] @ ''NoneType'' @ [quote]))"

text \<open>\<^verbatim>\<open>v.upper().strip()\<close>: only a string has the method \<^verbatim>\<open>upper\<close>.\<close>

fun upper_strip :: "pyval \<Rightarrow> exn + string" where
  "upper_strip (PyStr s) = Inr (py_strip (py_upper s))"
| "upper_strip PyNone =
     Inl (Exn ([quote] @ ''NoneType'' @ [quote] @ '' object has no attribute '' @ [quote] @ ''upper'' @ [quote]))"
| "upper_strip (PyInt i) =
     Inl (Exn ([quote] @ ''int'' @ [quote] @ '' object has no attribute '' @ [quote] @ ''upper'' @ [quote]))"
| "upper_strip (PyFloat r) =
     Inl (Exn ([quote] @ ''float'' @ [quote] @ '' object has no attribute '' @ [quote] @ ''upper'' @ [quote]))"

text \<open>The \<^verbatim>\<open>except\<close> clause, lines 251 to 255.\<close>

definition rate_limited :: "string \<Rightarrow> bool" where
  "rate_limited error_message =
     (contains ''rate'' (py_lower error_message) \<or> contains ''429'' error_message)"

definition error_response :: "exn \<Rightarrow> response" where
  "error_response e =
     (let error_message = exn_text e
      in if rate_limited error_message then
           (Error ''Rate limit reached. Please wait 15-20 minutes before trying again.'', 429)
         else (Error (''Error: '' @ error_message), 500))"

text \<open>The cache hit, lines 161 to 186: the five assignments to the cached dictionary.\<close>

definition recombine :: "rat \<Rightarrow> analysis \<Rightarrow> analysis" where
  "recombine w cached_result =
     (let combined = combine (of_int (rational_score cached_result))
                              (of_int (adaptive_score cached_result)) w;
          rs = recommend combined
      in cached_result
           \<lparr>combined_score := py_round2 combined,
            recommendation := fst rs,
            signal_class := snd rs,
            rational_weight := w,
            adaptive_weight := 1 - w\<rparr>)"

text \<open>The dictionary \<^verbatim>\<open>get_cached_data\<close> returns is the object the cache holds, so the
  assignments change the stored entry; its timestamp stays.\<close>

definition update_entry :: "string \<Rightarrow> analysis \<Rightarrow> cache \<Rightarrow> cache" where
  "update_entry tk data c =
     (case c tk of None \<Rightarrow> c | Some (old, timestamp) \<Rightarrow> c(tk \<mapsto> (data, timestamp)))"

text \<open>The cache miss, lines 194 to 249. \<^verbatim>\<open>round(score, 2)\<close> leaves the integer scores
  as they are.\<close>

definition fetch_fresh :: "env \<Rightarrow> string \<Rightarrow> rat \<Rightarrow> cache \<Rightarrow> exn + response \<times> cache" where
  "fetch_fresh ev tk w c =
     (let stock = yf_Ticker ev tk
      in case stock_info stock of
           Inl e \<Rightarrow> Inl e
         | Inr info \<Rightarrow>
             (let price = dict_get info ''currentPrice'' (dict_get info ''regularMarketPrice'' PyNone)
              in if \<not> truthy price then
                   Inr ((Error (''Could not fetch data for '' @ tk
                                @ ''. Please check the ticker symbol or try again later.''), 404), c)
                 else
                   (let rational = calculate_rational_score info;
                        adaptive = calculate_adaptive_score stock info;
                        combined = combine (of_int (fst rational)) (of_int (fst adaptive)) w;
                        rs = recommend combined;
                        resp = \<lparr>ticker = tk,
                                company_name = dict_get info ''longName'' (PyStr tk),
                                current_price = price,
                                rational_score = fst rational,
                                adaptive_score = fst adaptive,
                                combined_score = py_round2 combined,
                                recommendation = fst rs,
                                signal_class = snd rs,
                                rational_reasons = snd rational,
                                adaptive_reasons = snd adaptive,
                                rational_weight = w,
                                adaptive_weight = 1 - w,
                                pe_ratio = dict_get info ''trailingPE'' (PyStr ''N/A''),
                                forward_pe = dict_get info ''forwardPE'' (PyStr ''N/A''),
                                peg_ratio = dict_get info ''pegRatio'' (PyStr ''N/A''),
                                price_to_book = dict_get info ''priceToBook'' (PyStr ''N/A''),
                                market_cap = dict_get info ''marketCap'' (PyStr ''N/A''),
                                sector = dict_get info ''sector'' (PyStr ''N/A''),
                                industry = dict_get info ''industry'' (PyStr ''N/A'')\<rparr>
                    in Inr ((Result resp, 200), cache_data (now_store ev) tk resp c))))"

text \<open>The \<^verbatim>\<open>try\<close> block, lines 150 to 249; \<open>Inl\<close> is an exception that reaches the
  \<^verbatim>\<open>except\<close> clause. The weight is converted (line 152) before the ticker is tested
  (line 154).\<close>

definition analyze_try :: "env \<Rightarrow> request \<Rightarrow> cache \<Rightarrow> exn + response \<times> cache" where
  "analyze_try ev req c =
     (case req of
        Inl e \<Rightarrow> Inl e
      | Inr data \<Rightarrow>
          (case upper_strip (dict_get data ''ticker'' (PyStr [])) of
             Inl e \<Rightarrow> Inl e
           | Inr tk \<Rightarrow>
               (case py_float (float_of_str ev) (dict_get data ''rational_weight'' (PyInt 50)) of
                  Inl e \<Rightarrow> Inl e
                | Inr x \<Rightarrow>
                    (let w = x / 100
                     in if tk = [] then Inr ((Error ''Please enter a ticker symbol'', 400), c)
                        else
                          (case get_cached_data (now_lookup ev) tk c of
                             (Some cached_result, c1) \<Rightarrow>
                               (let res = recombine w cached_result
                                in Inr ((Result res, 200), update_entry tk res c1))
                           | (None, c1) \<Rightarrow> fetch_fresh ev tk w c1)))))"

definition analyze :: "env \<Rightarrow> request \<Rightarrow> cache \<Rightarrow> response \<times> cache" where
  "analyze ev req c =
     (case analyze_try ev req c of
        Inl e \<Rightarrow> (error_response e, c)
      | Inr out \<Rightarrow> out)"

text \<open>The caches the running service can hold: empty at start, then changed by
  requests only.\<close>

inductive reachable :: "cache \<Rightarrow> bool" where
  start: "reachable Map.empty"
| step: "reachable c \<Longrightarrow> reachable (snd (analyze ev req c))"

text \<open>Both stored scores of every entry lie between -50 and 50.\<close>

definition scores_clamped :: "cache \<Rightarrow> bool" where
  "scores_clamped c =
     (\<forall>tk data timestamp. c tk = Some (data, timestamp) \<longrightarrow>
        - 50 \<le> rational_score data \<and> rational_score data \<le> 50 \<and>
        - 50 \<le> adaptive_score data \<and> adaptive_score data \<le> 50)"

text \<open>The analysis a response carries, if it is not an error.\<close>

fun result_of :: "response \<Rightarrow> analysis option" where
  "result_of (Result r, st) = Some r"
| "result_of (Error msg, st) = None"

section \<open>The rules of the rational scorer as a sum\<close>










section \<open>Example inputs\<close>

text \<open>The snapshot of section 8 of the specification.\<close>

definition example_snapshot :: pydict where
  "example_snapshot =
     [''trailingPE'' \<mapsto> PyInt 10, ''industryPE'' \<mapsto> PyInt 25, ''pegRatio'' \<mapsto> PyFloat (5 / 10),
      ''priceToBook'' \<mapsto> PyFloat (5 / 10), ''profitMargins'' \<mapsto> PyFloat (25 / 100)]"

text \<open>A provider that knows this snapshot at a price of 100 and has no price history.\<close>

definition example_stock :: yf_ticker where
  "example_stock =
     \<lparr>stock_info = Inr (example_snapshot(''currentPrice'' \<mapsto> PyInt 100)), stock_history = Inr []\<rparr>"

text \<open>\<^verbatim>\<open>float\<close> on a string of decimal digits. The examples carry numbers and \<^verbatim>\<open>null\<close> as
  weights, so the parser of the example environment is never asked about other strings.\<close>

definition float_of_digits :: "string \<Rightarrow> rat option" where
  "float_of_digits s =
     (if s \<noteq> [] \<and> list_all (\<lambda>c. c \<in> set ''0123456789'') s
      then Some (of_nat (foldl (\<lambda>n c. 10 * n + (of_char c - 48)) 0 s)) else None)"

definition example_env :: env where
  "example_env =
     \<lparr>now_lookup = 1000000, now_store = 3000000, yf_Ticker = (\<lambda>tk. example_stock),
      float_of_str = float_of_digits\<rparr>"

definition example_entry :: analysis where
  "example_entry =
     \<lparr>ticker = ''X'', company_name = PyStr ''X'', current_price = PyInt 100,
      rational_score = - 50, adaptive_score = 0, combined_score = - 25,
      recommendation = ''STRONG BUY'', signal_class = ''strong-buy'',
      rational_reasons = [], adaptive_reasons = [''Insufficient historical data''],
      rational_weight = 1 / 2, adaptive_weight = 1 / 2,
      pe_ratio = PyInt 10, forward_pe = PyStr ''N/A'', peg_ratio = PyFloat (5 / 10),
      price_to_book = PyFloat (5 / 10), market_cap = PyStr ''N/A'', sector = PyStr ''N/A'',
      industry = PyStr ''N/A''\<rparr>"

definition example_cache :: cache where
  "example_cache = [''X'' \<mapsto> (example_entry, 0)]"

definition example_request :: "int \<Rightarrow> request" where
  "example_request weight = Inr [''ticker'' \<mapsto> PyStr ''x'', ''rational_weight'' \<mapsto> PyInt weight]"



section \<open>Unfolding rules for concrete inputs\<close>

lemmas eval_strings = py_strip_def py_upper_def upper_char_def lower_letters_def
  upper_letters_def is_space_def py_lower_def lower_char_def

lemmas eval_rational = calculate_rational_score_def pe_rule_def peg_rule_def
  pb_rule_def pm_rule_def dict_get_def clamp50_def format_f_def round_half_even_def
  show_nat.simps digit_char_def

lemmas eval_analyze = analyze_def analyze_try_def example_request_def example_env_def
  get_cached_data_def update_entry_def fetch_fresh_def cache_data_def example_stock_def
  example_snapshot_def calculate_adaptive_score_def combine_def recommend_def py_round2_def
  recombine_def error_response_def rate_limited_def CACHE_DURATION_def Let_def

section \<open>Bounds of the scores\<close>

lemma clamp50_bounds: "- 50 \<le> clamp50 s \<and> clamp50 s \<le> 50"
  by (simp add: clamp50_def)

lemma rational_score_bounds:
  "- 50 \<le> fst (calculate_rational_score info) \<and> fst (calculate_rational_score info) \<le> 50"
  by (simp add: calculate_rational_score_def Let_def clamp50_bounds)

lemma adaptive_score_bounds:
  "- 50 \<le> fst (calculate_adaptive_score td info) \<and> fst (calculate_adaptive_score td info) \<le> 50"
  by (simp add: calculate_adaptive_score_def Let_def clamp50_bounds clamp50_def split: sum.split)

lemma combine_le:
  assumes "r \<le> 50" "a \<le> 50" "0 \<le> w" "w \<le> 1"
  shows "combine r a w \<le> 50"
proof -
  have "r * w \<le> 50 * w"
    using assms by (intro mult_right_mono) auto
  moreover have "a * (1 - w) \<le> 50 * (1 - w)"
    using assms by (intro mult_right_mono) auto
  ultimately show ?thesis
    by (simp add: combine_def algebra_simps)
qed

lemma combine_ge:
  assumes "- 50 \<le> r" "- 50 \<le> a" "0 \<le> w" "w \<le> 1"
  shows "- 50 \<le> combine r a w"
proof -
  have "(- 50) * w \<le> r * w"
    using assms by (intro mult_right_mono) auto
  moreover have "(- 50) * (1 - w) \<le> a * (1 - w)"
    using assms by (intro mult_right_mono) auto
  ultimately show ?thesis
    by (simp add: combine_def algebra_simps)
qed

text \<open>Rounding does not cross an integer.\<close>

lemma round_half_even_ge:
  assumes "of_int n \<le> y"
  shows "n \<le> round_half_even y"
proof -
  have "n \<le> \<lfloor>y\<rfloor>"
    using assms by (simp add: le_floor_iff)
  moreover have "\<lfloor>y\<rfloor> \<le> round_half_even y"
    by (simp add: round_half_even_def Let_def)
  ultimately show ?thesis by linarith
qed

lemma round_half_even_le:
  assumes "y \<le> of_int n"
  shows "round_half_even y \<le> n"
proof -
  have f: "\<lfloor>y\<rfloor> \<le> n"
    using assms by (simp add: floor_le_iff)
  show ?thesis
  proof (cases "y - of_int \<lfloor>y\<rfloor> < 1 / 2")
    case True
    then show ?thesis using f by (simp add: round_half_even_def Let_def)
  next
    case False
    then have "of_int \<lfloor>y\<rfloor> < y" by linarith
    then have "of_int \<lfloor>y\<rfloor> < (of_int n :: rat)" using assms by linarith
    then have "\<lfloor>y\<rfloor> + 1 \<le> n" by simp
    then show ?thesis using f by (simp add: round_half_even_def Let_def)
  qed
qed

lemma py_round2_bounds:
  assumes "- 50 \<le> x" "x \<le> 50"
  shows "- 50 \<le> py_round2 x \<and> py_round2 x \<le> 50"
proof -
  have "of_int (- 5000) \<le> x * 100" using assms by simp
  then have lo: "- 5000 \<le> round_half_even (x * 100)" by (rule round_half_even_ge)
  have "x * 100 \<le> of_int 5000" using assms by simp
  then have hi: "round_half_even (x * 100) \<le> 5000" by (rule round_half_even_le)
  have "- 50 \<le> (of_int (round_half_even (x * 100)) :: rat) / 100"
    using lo by (simp add: le_divide_eq)
  moreover have "(of_int (round_half_even (x * 100)) :: rat) / 100 \<le> 50"
    using hi by (simp add: divide_le_eq)
  ultimately show ?thesis by (simp add: py_round2_def)
qed

section \<open>The handler, case by case\<close>

lemma get_cached_data_snd: "snd (get_cached_data now tk c) = c"
  by (simp add: get_cached_data_def split: option.split prod.split)

lemma get_cached_data_hit:
  "fst (get_cached_data now tk c) = Some d \<longleftrightarrow>
     (\<exists>ts. c tk = Some (d, ts) \<and> now - ts < CACHE_DURATION)"
  by (auto simp: get_cached_data_def split: option.split prod.split)

lemma recombine_scores:
  "rational_score (recombine w d) = rational_score d \<and>
   adaptive_score (recombine w d) = adaptive_score d"
  by (simp add: recombine_def Let_def)

lemma recombine_combined:
  "combined_score (recombine w d) =
     py_round2 (combine (of_int (rational_score d)) (of_int (adaptive_score d)) w)"
  by (simp add: recombine_def Let_def)

lemma score_pair_bounded:
  assumes "- 50 \<le> (r::int)" "r \<le> 50" "- 50 \<le> (a::int)" "a \<le> 50" "0 \<le> w" "w \<le> 1"
  shows "- 50 \<le> py_round2 (combine (of_int r) (of_int a) w) \<and>
         py_round2 (combine (of_int r) (of_int a) w) \<le> 50"
proof -
  have r: "(- 50::rat) \<le> of_int r" "(of_int r :: rat) \<le> 50"
    using assms(1,2) by simp_all
  have a: "(- 50::rat) \<le> of_int a" "(of_int a :: rat) \<le> 50"
    using assms(3,4) by simp_all
  show ?thesis
    by (rule py_round2_bounds)
       (rule combine_ge [OF r(1) a(1) assms(5,6)], rule combine_le [OF r(2) a(2) assms(5,6)])
qed

lemma fetch_fresh_result:
  assumes "fetch_fresh ev tk w c = Inr ((Result r, st), c')"
  shows "- 50 \<le> rational_score r \<and> rational_score r \<le> 50 \<and>
         - 50 \<le> adaptive_score r \<and> adaptive_score r \<le> 50 \<and>
         combined_score r = py_round2 (combine (of_int (rational_score r)) (of_int (adaptive_score r)) w) \<and>
         c' = cache_data (now_store ev) tk r c \<and> st = 200"
  using assms rational_score_bounds adaptive_score_bounds
  unfolding fetch_fresh_def Let_def
  by (auto split: sum.splits if_splits)

lemma fetch_fresh_error:
  assumes "fetch_fresh ev tk w c = Inr ((Error msg, st), c')"
  shows "c' = c \<and> st = 404"
  using assms unfolding fetch_fresh_def Let_def
  by (auto split: sum.splits if_splits)


lemma analyze_try_empty_ticker:
  assumes "upper_strip (dict_get data ''ticker'' (PyStr [])) = Inr []"
    and "py_float (float_of_str ev) (dict_get data ''rational_weight'' (PyInt 50)) = Inr x"
  shows "analyze_try ev (Inr data) c = Inr ((Error ''Please enter a ticker symbol'', 400), c)"
  using assms by (simp add: analyze_try_def)

lemma analyze_try_hit:
  assumes "upper_strip (dict_get data ''ticker'' (PyStr [])) = Inr tk" "tk \<noteq> []"
    and "py_float (float_of_str ev) (dict_get data ''rational_weight'' (PyInt 50)) = Inr x"
    and "c tk = Some (d, ts)" "now_lookup ev - ts < CACHE_DURATION"
  shows "analyze_try ev (Inr data) c =
           Inr ((Result (recombine (x / 100) d), 200), c(tk \<mapsto> (recombine (x / 100) d, ts)))"
  using assms by (simp add: analyze_try_def get_cached_data_def update_entry_def Let_def)

lemma analyze_try_miss:
  assumes "upper_strip (dict_get data ''ticker'' (PyStr [])) = Inr tk" "tk \<noteq> []"
    and "py_float (float_of_str ev) (dict_get data ''rational_weight'' (PyInt 50)) = Inr x"
    and "fst (get_cached_data (now_lookup ev) tk c) = None"
  shows "analyze_try ev (Inr data) c = fetch_fresh ev tk (x / 100) c"
proof -
  have "get_cached_data (now_lookup ev) tk c = (None, c)"
    using assms(4) get_cached_data_snd [of "now_lookup ev" tk c]
    by (cases "get_cached_data (now_lookup ev) tk c") simp
  then show ?thesis
    using assms(1-3) by (simp add: analyze_try_def Let_def)
qed

lemma analyze_try_Inr:
  assumes "analyze_try ev req c = Inr (resp, c')"
  obtains data tk x where "req = Inr data"
    and "upper_strip (dict_get data ''ticker'' (PyStr [])) = Inr tk"
    and "py_float (float_of_str ev) (dict_get data ''rational_weight'' (PyInt 50)) = Inr x"
    and "(tk = [] \<and> resp = (Error ''Please enter a ticker symbol'', 400) \<and> c' = c) \<or>
         (tk \<noteq> [] \<and> (\<exists>d ts. c tk = Some (d, ts) \<and> now_lookup ev - ts < CACHE_DURATION \<and>
             resp = (Result (recombine (x / 100) d), 200) \<and>
             c' = c(tk \<mapsto> (recombine (x / 100) d, ts)))) \<or>
         (tk \<noteq> [] \<and> fst (get_cached_data (now_lookup ev) tk c) = None \<and>
             fetch_fresh ev tk (x / 100) c = Inr (resp, c'))"
proof -
  from assms obtain data where req: "req = Inr data"
    by (cases req) (simp_all add: analyze_try_def)
  from assms req obtain tk where tk: "upper_strip (dict_get data ''ticker'' (PyStr [])) = Inr tk"
    by (cases "upper_strip (dict_get data ''ticker'' (PyStr []))") (simp_all add: analyze_try_def)
  from assms req tk obtain x
    where x: "py_float (float_of_str ev) (dict_get data ''rational_weight'' (PyInt 50)) = Inr x"
    by (cases "py_float (float_of_str ev) (dict_get data ''rational_weight'' (PyInt 50))")
       (simp_all add: analyze_try_def)
  show thesis
  proof (cases "tk = []")
    case True
    then show thesis
      using that [OF req tk x] assms analyze_try_empty_ticker [of data ev x c] req tk x by auto
  next
    case False
    show thesis
    proof (cases "fst (get_cached_data (now_lookup ev) tk c)")
      case None
      then show thesis
        using that [OF req tk x] assms analyze_try_miss [OF tk False x None] req False by auto
    next
      case (Some d)
      then obtain ts where ts: "c tk = Some (d, ts)" "now_lookup ev - ts < CACHE_DURATION"
        by (auto simp: get_cached_data_hit)
      show thesis
        using that [OF req tk x] assms analyze_try_hit [where c = c, OF tk False x ts] req False ts by auto
    qed
  qed
qed

lemma analyze_preserves_clamped:
  assumes "scores_clamped c"
  shows "scores_clamped (snd (analyze ev req c))"
proof (cases "analyze_try ev req c")
  case (Inl e)
  then show ?thesis using assms by (simp add: analyze_def)
next
  case (Inr out)
  obtain resp c' where out: "out = (resp, c')" by (cases out)
  have snd: "snd (analyze ev req c) = c'"
    using Inr out by (simp add: analyze_def)
  from Inr out have "analyze_try ev req c = Inr (resp, c')" by simp
  then show ?thesis
  proof (cases rule: analyze_try_Inr)
    case (1 data tk x)
    from 1(4) show ?thesis
    proof (elim disjE conjE exE)
      assume "c' = c"
      then show ?thesis using assms snd by simp
    next
      fix d ts
      assume h: "c tk = Some (d, ts)" "c' = c(tk \<mapsto> (recombine (x / 100) d, ts))"
      from assms h(1) have "- 50 \<le> rational_score d \<and> rational_score d \<le> 50 \<and>
          - 50 \<le> adaptive_score d \<and> adaptive_score d \<le> 50"
        unfolding scores_clamped_def by blast
      then show ?thesis
        using assms h(2) snd unfolding scores_clamped_def
        by (auto simp: recombine_scores)
    next
      assume f: "fetch_fresh ev tk (x / 100) c = Inr (resp, c')"
      obtain b st where resp: "resp = (b, st)" by (cases resp)
      show ?thesis
      proof (cases b)
        case (Error msg)
        then show ?thesis
          using fetch_fresh_error [of ev tk "x / 100" c msg st c'] f resp assms snd by simp
      next
        case (Result r)
        then have "- 50 \<le> rational_score r \<and> rational_score r \<le> 50 \<and>
            - 50 \<le> adaptive_score r \<and> adaptive_score r \<le> 50 \<and>
            c' = cache_data (now_store ev) tk r c"
          using fetch_fresh_result [of ev tk "x / 100" c r st c'] f resp by simp
        then show ?thesis
          using assms snd unfolding scores_clamped_def cache_data_def by auto
      qed
    qed
  qed
qed

lemma reachable_clamped: "reachable c \<Longrightarrow> scores_clamped c"
proof (induction rule: reachable.induct)
  case start
  show ?case by (simp add: scores_clamped_def)
next
  case (step c ev req)
  then show ?case by (simp add: analyze_preserves_clamped)
qed





section \<open>The combined score\<close>



text \<open>
  Claim C1, as stated: for every request the handler processes, whatever weight it
  accepts, the combined score lies between -50 and 50. The handler divides the weight by
  100 and checks no range: a weight of 200 on a fresh fetch with rational score -50 and
  adaptive score 0 gives the combined score -100.
\<close>

theorem analyze_weight_200_counterexample:
  "py_float (float_of_str example_env) (PyInt 200) = Inr 200 \<and>
   map_option combined_score
     (result_of (fst (analyze example_env (example_request 200) Map.empty))) = Some (- 100) \<and>
   \<not> (- 50 \<le> (- 100 :: rat))"
  by (simp add: eval_analyze eval_strings eval_rational)

text \<open>
  Claim C1, amended: for every cache the service can have reached and every request whose
  weight, converted by \<^verbatim>\<open>float\<close>, lies between 0 and 100, the combined score of a
  successful response lies between -50 and 50.
\<close>

theorem analyze_combined_in_range:
  assumes "reachable c"
    and "py_float (float_of_str ev) (dict_get data ''rational_weight'' (PyInt 50)) = Inr x"
    and "0 \<le> x" "x \<le> 100"
    and "result_of (fst (analyze ev (Inr data) c)) = Some r"
  shows "- 50 \<le> combined_score r \<and> combined_score r \<le> 50"
proof -
  have inv: "scores_clamped c"
    using assms(1) by (rule reachable_clamped)
  have w: "0 \<le> x / 100" "x / 100 \<le> 1"
    using assms(3,4) by simp_all
  show ?thesis
  proof (cases "analyze_try ev (Inr data) c")
    case (Inl e)
    then show ?thesis
      using assms(5) by (simp add: analyze_def error_response_def Let_def split: if_splits)
  next
    case (Inr out)
    obtain resp c' where out: "out = (resp, c')" by (cases out)
    have resp: "result_of resp = Some r"
      using Inr out assms(5) by (simp add: analyze_def)
    from Inr out have "analyze_try ev (Inr data) c = Inr (resp, c')" by simp
    then show ?thesis
    proof (cases rule: analyze_try_Inr)
      case (1 data' tk x')
      have x': "x' = x" using 1(1,3) assms(2) by simp
      from 1(4) show ?thesis
      proof (elim disjE conjE exE)
        assume "resp = (Error ''Please enter a ticker symbol'', 400)"
        then show ?thesis using resp by simp
      next
        fix d ts
        assume h: "c tk = Some (d, ts)" "resp = (Result (recombine (x' / 100) d), 200)"
        from inv h(1) have b: "- 50 \<le> rational_score d" "rational_score d \<le> 50"
            "- 50 \<le> adaptive_score d" "adaptive_score d \<le> 50"
          unfolding scores_clamped_def by blast+
        have "r = recombine (x / 100) d" using h(2) resp x' by simp
        then show ?thesis
          using score_pair_bounded [OF b w] by (simp add: recombine_combined)
      next
        assume f: "fetch_fresh ev tk (x' / 100) c = Inr (resp, c')"
        obtain st where "resp = (Result r, st)"
          using resp by (cases resp rule: result_of.cases) simp_all
        then have "- 50 \<le> rational_score r \<and> rational_score r \<le> 50 \<and>
            - 50 \<le> adaptive_score r \<and> adaptive_score r \<le> 50 \<and>
            combined_score r = py_round2 (combine (of_int (rational_score r)) (of_int (adaptive_score r)) (x / 100))"
          using fetch_fresh_result [of ev tk "x / 100" c r st c'] f x' by simp
        then show ?thesis
          using score_pair_bounded [of "rational_score r" "adaptive_score r" "x / 100"] w by simp
      qed
    qed
  qed
qed

theorem analyze_combined_in_range_witness:
  "reachable Map.empty \<and>
   py_float (float_of_str example_env) (PyInt 30) = Inr 30 \<and> (0::rat) \<le> 30 \<and> (30::rat) \<le> 100 \<and>
   map_option combined_score
     (result_of (fst (analyze example_env (example_request 30) Map.empty))) = Some (- 15) \<and>
   - 50 \<le> (- 15 :: rat) \<and> (- 15 :: rat) \<le> 50"
proof -
  obtain r where r: "result_of (fst (analyze example_env (Inr [''ticker'' \<mapsto> PyStr ''x'', ''rational_weight'' \<mapsto> PyInt 30]) Map.empty)) = Some r"
      and c: "combined_score r = - 15"
    by (simp add: eval_analyze eval_strings eval_rational)
  have "- 50 \<le> combined_score r \<and> combined_score r \<le> 50"
    by (rule analyze_combined_in_range [OF reachable.start _ _ _ r, of 30])
       (simp_all add: dict_get_def)
  then show ?thesis
    using r c reachable.start by (simp add: example_request_def)
qed

section \<open>Bucketing\<close>


section \<open>The rational scorer on examples and in general\<close>

text \<open>
  Claim C4. On the snapshot with P/E 10, industry P/E 25, PEG 0.5, price to book 0.5 and
  profit margin 0.25 the rational scorer returns -50 with the four reasons in the order
  of the rules: the adjustments -20, -15, -15 and -10 add up to -60, and the sum is
  clamped once, after the last rule.
\<close>

theorem rational_score_example:
  "fst (run_rules [pe_rule example_snapshot, peg_rule example_snapshot,
                   pb_rule example_snapshot, pm_rule example_snapshot] (0, [])) = - 60 \<and>
   calculate_rational_score example_snapshot =
     (- 50, [''Low P/E ratio (10.00 vs industry 25.00)'', ''Attractive PEG ratio (0.50)'',
             ''Trading below book value (0.50)'', ''Strong profit margins (25.0%)''])"
  by (simp add: calculate_rational_score_def example_snapshot_def pe_rule_def peg_rule_def
      pb_rule_def pm_rule_def dict_get_def clamp50_def format_f_def round_half_even_def
      show_nat.simps digit_char_def)




section \<open>The adaptive scorer on a short history\<close>

text \<open>
  Claim C6. Whenever the fetched price history has fewer than 50 daily bars, the adaptive
  scorer returns exactly the score 0 with the single reason "Insufficient historical
  data", whatever the fundamentals and the bars are.
\<close>

theorem adaptive_insufficient_history:
  assumes "stock_history ticker_data = Inr df" "length df < 50"
  shows "calculate_adaptive_score ticker_data info = (0, [''Insufficient historical data''])"
  using assms by (simp add: calculate_adaptive_score_def)

theorem adaptive_insufficient_history_witness:
  "stock_history \<lparr>stock_info = Inr example_snapshot,
                  stock_history = Inr [\<lparr>Close = 10, High = 11, Low = 9\<rparr>]\<rparr>
     = Inr [\<lparr>Close = 10, High = 11, Low = 9\<rparr>] \<and>
   length [\<lparr>Close = 10, High = 11, Low = 9\<rparr>] < 50 \<and>
   calculate_adaptive_score
     \<lparr>stock_info = Inr example_snapshot, stock_history = Inr [\<lparr>Close = 10, High = 11, Low = 9\<rparr>]\<rparr>
     example_snapshot = (0, [''Insufficient historical data''])"
  using adaptive_insufficient_history
    [of "\<lparr>stock_info = Inr example_snapshot, stock_history = Inr [\<lparr>Close = 10, High = 11, Low = 9\<rparr>]\<rparr>"
        "[\<lparr>Close = 10, High = 11, Low = 9\<rparr>]" example_snapshot]
  by simp

section \<open>The cache round trip\<close>

lemma lookup_after_store:
  "get_cached_data later tk (cache_data now tk data c) =
     (if later - now < CACHE_DURATION then Some data else None, cache_data now tk data c)"
  by (simp add: get_cached_data_def cache_data_def)

lemma lookup_absent: "c tk = None \<Longrightarrow> get_cached_data later tk c = (None, c)"
  by (simp add: get_cached_data_def)

text \<open>
  Claim C7. The time to live is ten minutes. Storing a result and looking the ticker up
  while less than the time to live has elapsed returns the stored result; a lookup at or
  after the time to live, or of a ticker never stored, returns nothing; no lookup changes
  the storage, so a stale entry stays; storing overwrites the entry of the ticker,
  whatever it was, with the result and the current time, and touches no other entry.
\<close>

theorem cache_round_trip:
  "CACHE_DURATION = 600000000 \<and>
   cache_data now tk data c tk = Some (data, now) \<and>
   (\<forall>other. other \<noteq> tk \<longrightarrow> cache_data now tk data c other = c other) \<and>
   (later - now < CACHE_DURATION \<longrightarrow>
      get_cached_data later tk (cache_data now tk data c) = (Some data, cache_data now tk data c)) \<and>
   (\<not> later - now < CACHE_DURATION \<longrightarrow>
      get_cached_data later tk (cache_data now tk data c) = (None, cache_data now tk data c)) \<and>
   (c tk = None \<longrightarrow> get_cached_data later tk c = (None, c)) \<and>
   snd (get_cached_data later tk c) = c"
proof -
  have a: "CACHE_DURATION = 600000000"
    by (simp add: CACHE_DURATION_def)
  have b: "cache_data now tk data c tk = Some (data, now)"
    by (simp add: cache_data_def)
  have c: "\<forall>other. other \<noteq> tk \<longrightarrow> cache_data now tk data c other = c other"
    by (simp add: cache_data_def)
  have d: "later - now < CACHE_DURATION \<longrightarrow>
      get_cached_data later tk (cache_data now tk data c) = (Some data, cache_data now tk data c)"
  proof
    assume h: "later - now < CACHE_DURATION"
    show "get_cached_data later tk (cache_data now tk data c) = (Some data, cache_data now tk data c)"
      by (simp only: lookup_after_store h if_True)
  qed
  have e: "\<not> later - now < CACHE_DURATION \<longrightarrow>
      get_cached_data later tk (cache_data now tk data c) = (None, cache_data now tk data c)"
  proof
    assume h: "\<not> later - now < CACHE_DURATION"
    show "get_cached_data later tk (cache_data now tk data c) = (None, cache_data now tk data c)"
      by (simp only: lookup_after_store h if_False)
  qed
  have f: "c tk = None \<longrightarrow> get_cached_data later tk c = (None, c)"
    using lookup_absent by blast
  have g: "snd (get_cached_data later tk c) = c"
    by (rule get_cached_data_snd)
  show ?thesis
    by (intro conjI a b c d e f g)
qed

theorem cache_round_trip_witness:
  "(599999999 - 0 < CACHE_DURATION \<and>
    get_cached_data 599999999 ''X'' (cache_data 0 ''X'' example_entry Map.empty)
      = (Some example_entry, cache_data 0 ''X'' example_entry Map.empty)) \<and>
   (\<not> 600000000 - 0 < CACHE_DURATION \<and>
    get_cached_data 600000000 ''X'' (cache_data 0 ''X'' example_entry Map.empty)
      = (None, cache_data 0 ''X'' example_entry Map.empty)) \<and>
   (Map.empty :: cache) ''Y'' = None \<and> get_cached_data 5 ''Y'' Map.empty = (None, Map.empty)"
proof -
  have t1: "(599999999::int) - 0 < CACHE_DURATION"
    by (simp add: CACHE_DURATION_def)
  have t2: "\<not> (600000000::int) - 0 < CACHE_DURATION"
    by (simp add: CACHE_DURATION_def)
  have t3: "(Map.empty :: cache) ''Y'' = None"
    by simp
  from cache_round_trip [of 0 "''X''" example_entry Map.empty 599999999] t1
  have r1: "get_cached_data 599999999 ''X'' (cache_data 0 ''X'' example_entry Map.empty)
      = (Some example_entry, cache_data 0 ''X'' example_entry Map.empty)"
    by blast
  from cache_round_trip [of 0 "''X''" example_entry Map.empty 600000000] t2
  have r2: "get_cached_data 600000000 ''X'' (cache_data 0 ''X'' example_entry Map.empty)
      = (None, cache_data 0 ''X'' example_entry Map.empty)"
    by blast
  from cache_round_trip [of 0 "''Y''" example_entry Map.empty 5] t3
  have r3: "get_cached_data 5 ''Y'' Map.empty = (None, Map.empty)"
    by blast
  show ?thesis
    by (intro conjI t1 t2 t3 r1 r2 r3)
qed

section \<open>Cache hits\<close>

lemma recombine_idem: "recombine w (recombine w d) = recombine w d"
  by (simp add: recombine_def Let_def)

lemma analyze_hit:
  assumes "upper_strip (dict_get data ''ticker'' (PyStr [])) = Inr tk" "tk \<noteq> []"
    and "py_float (float_of_str ev) (dict_get data ''rational_weight'' (PyInt 50)) = Inr x"
    and "c tk = Some (d, ts)" "now_lookup ev - ts < CACHE_DURATION"
  shows "analyze ev (Inr data) c =
           ((Result (recombine (x / 100) d), 200), c(tk \<mapsto> (recombine (x / 100) d, ts)))"
  by (simp only: analyze_def analyze_try_hit [where c = c, OF assms] sum.case)

text \<open>
  Claim C8. Recombination is idempotent: recombining a cached result twice with the same
  weight gives the same result as once, and two requests in a row that both hit the
  cache with the same weight receive the same response, so the same combined score,
  recommendation and signal class.
\<close>

theorem recombination_idempotent:
  assumes "upper_strip (dict_get data ''ticker'' (PyStr [])) = Inr tk" "tk \<noteq> []"
    and "py_float (float_of_str ev) (dict_get data ''rational_weight'' (PyInt 50)) = Inr x"
    and "py_float (float_of_str ev') (dict_get data ''rational_weight'' (PyInt 50)) = Inr x"
    and "c tk = Some (d, ts)"
    and "now_lookup ev - ts < CACHE_DURATION" "now_lookup ev' - ts < CACHE_DURATION"
  shows "recombine (x / 100) (recombine (x / 100) d) = recombine (x / 100) d \<and>
         fst (analyze ev (Inr data) c) = (Result (recombine (x / 100) d), 200) \<and>
         fst (analyze ev' (Inr data) (snd (analyze ev (Inr data) c)))
           = fst (analyze ev (Inr data) c)"
proof -
  let ?r = "recombine (x / 100) d"
  have first: "analyze ev (Inr data) c = ((Result ?r, 200), c(tk \<mapsto> (?r, ts)))"
    using assms(1,2,3,5,6) by (rule analyze_hit)
  have stored: "(c(tk \<mapsto> (?r, ts))) tk = Some (?r, ts)"
    by simp
  have second: "analyze ev' (Inr data) (c(tk \<mapsto> (?r, ts)))
      = ((Result (recombine (x / 100) ?r), 200),
         (c(tk \<mapsto> (?r, ts)))(tk \<mapsto> (recombine (x / 100) ?r, ts)))"
    using assms(1,2,4) stored assms(7) by (rule analyze_hit)
  show ?thesis
    by (simp only: first second recombine_idem fst_conv snd_conv simp_thms)
qed

theorem recombination_idempotent_witness:
  "upper_strip (PyStr ''x'') = Inr ''X'' \<and> ''X'' \<noteq> [] \<and>
   py_float (float_of_str example_env) (PyInt 30) = Inr 30 \<and>
   example_cache ''X'' = Some (example_entry, 0) \<and>
   now_lookup example_env - 0 < CACHE_DURATION \<and>
   fst (analyze example_env (example_request 30) example_cache)
     = (Result (recombine (30 / 100) example_entry), 200) \<and>
   fst (analyze example_env (example_request 30)
          (snd (analyze example_env (example_request 30) example_cache)))
     = fst (analyze example_env (example_request 30) example_cache) \<and>
   combined_score (recombine (30 / 100) example_entry) = - 15 \<and>
   recommendation (recombine (30 / 100) example_entry) = ''BUY''"
proof -
  let ?data = "[''ticker'' \<mapsto> PyStr ''x'', ''rational_weight'' \<mapsto> PyInt 30]"
  have tk: "upper_strip (dict_get ?data ''ticker'' (PyStr [])) = Inr ''X''"
    by (simp add: dict_get_def eval_strings)
  have ne: "''X'' \<noteq> []" by simp
  have x: "py_float (float_of_str example_env) (dict_get ?data ''rational_weight'' (PyInt 50)) = Inr 30"
    by (simp add: dict_get_def)
  have e: "example_cache ''X'' = Some (example_entry, 0)"
    by (simp add: example_cache_def)
  have t: "now_lookup example_env - 0 < CACHE_DURATION"
    by (simp add: example_env_def CACHE_DURATION_def)
  have v: "combined_score (recombine (30 / 100) example_entry) = - 15 \<and>
           recommendation (recombine (30 / 100) example_entry) = ''BUY''"
    by (simp add: recombine_def example_entry_def combine_def recommend_def py_round2_def
        round_half_even_def Let_def)
  from recombination_idempotent [where c = example_cache, OF tk ne x x e t t] tk x e t v
  show ?thesis
    by (simp add: example_request_def dict_get_def)
qed

lemma recombine_frame:
  "ticker (recombine w d) = ticker d \<and>
   company_name (recombine w d) = company_name d \<and>
   current_price (recombine w d) = current_price d \<and>
   rational_score (recombine w d) = rational_score d \<and>
   adaptive_score (recombine w d) = adaptive_score d \<and>
   rational_reasons (recombine w d) = rational_reasons d \<and>
   adaptive_reasons (recombine w d) = adaptive_reasons d \<and>
   pe_ratio (recombine w d) = pe_ratio d \<and>
   forward_pe (recombine w d) = forward_pe d \<and>
   peg_ratio (recombine w d) = peg_ratio d \<and>
   price_to_book (recombine w d) = price_to_book d \<and>
   market_cap (recombine w d) = market_cap d \<and>
   sector (recombine w d) = sector d \<and>
   industry (recombine w d) = industry d"
  by (simp add: recombine_def Let_def)

text \<open>
  Claim C10. On a cache hit the handler changes the stored entry itself: the entry of the
  ticker holds the recombined result under its old timestamp and no other entry changes.
  In that result the ticker, the company name, the current price, both scores, both lists
  of reasons and the raw fundamental fields are those of the entry before; only the
  combined score, the recommendation, the signal class and the two weights are assigned.
\<close>

theorem cache_hit_frame:
  assumes "upper_strip (dict_get data ''ticker'' (PyStr [])) = Inr tk" "tk \<noteq> []"
    and "py_float (float_of_str ev) (dict_get data ''rational_weight'' (PyInt 50)) = Inr x"
    and "c tk = Some (d, ts)" "now_lookup ev - ts < CACHE_DURATION"
    and "stored = recombine (x / 100) d"
  shows "snd (analyze ev (Inr data) c) = c(tk \<mapsto> (stored, ts)) \<and>
         fst (analyze ev (Inr data) c) = (Result stored, 200) \<and>
         ticker stored = ticker d \<and>
         company_name stored = company_name d \<and>
         current_price stored = current_price d \<and>
         rational_score stored = rational_score d \<and>
         adaptive_score stored = adaptive_score d \<and>
         rational_reasons stored = rational_reasons d \<and>
         adaptive_reasons stored = adaptive_reasons d \<and>
         pe_ratio stored = pe_ratio d \<and>
         forward_pe stored = forward_pe d \<and>
         peg_ratio stored = peg_ratio d \<and>
         price_to_book stored = price_to_book d \<and>
         market_cap stored = market_cap d \<and>
         sector stored = sector d \<and>
         industry stored = industry d \<and>
         stored = d\<lparr>combined_score := combined_score stored,
                     recommendation := recommendation stored,
                     signal_class := signal_class stored,
                     rational_weight := x / 100,
                     adaptive_weight := 1 - x / 100\<rparr>"
proof -
  have a: "analyze ev (Inr data) c = ((Result stored, 200), c(tk \<mapsto> (stored, ts)))"
    unfolding assms(6) using assms(1-5) by (rule analyze_hit)
  have b: "stored = d\<lparr>combined_score := combined_score stored,
                     recommendation := recommendation stored,
                     signal_class := signal_class stored,
                     rational_weight := x / 100,
                     adaptive_weight := 1 - x / 100\<rparr>"
    unfolding assms(6) by (simp add: recombine_def Let_def)
  show ?thesis
    using recombine_frame [of "x / 100" d] b
    by (simp only: a fst_conv snd_conv assms(6) [symmetric] simp_thms)
qed

theorem cache_hit_frame_witness:
  "upper_strip (PyStr ''x'') = Inr ''X'' \<and> ''X'' \<noteq> [] \<and>
   py_float (float_of_str example_env) (PyInt 30) = Inr 30 \<and>
   example_cache ''X'' = Some (example_entry, 0) \<and>
   now_lookup example_env - 0 < CACHE_DURATION \<and>
   snd (analyze example_env (example_request 30) example_cache)
     = example_cache(''X'' \<mapsto> (recombine (30 / 100) example_entry, 0)) \<and>
   rational_score (recombine (30 / 100) example_entry) = - 50 \<and>
   rational_reasons (recombine (30 / 100) example_entry) = [] \<and>
   recombine (30 / 100) example_entry
     = example_entry\<lparr>combined_score := - 15, recommendation := ''BUY'', signal_class := ''buy'',
                      rational_weight := 3 / 10, adaptive_weight := 7 / 10\<rparr>"
proof -
  let ?data = "[''ticker'' \<mapsto> PyStr ''x'', ''rational_weight'' \<mapsto> PyInt 30]"
  have tk: "upper_strip (dict_get ?data ''ticker'' (PyStr [])) = Inr ''X''"
    by (simp add: dict_get_def eval_strings)
  have ne: "''X'' \<noteq> []" by simp
  have x: "py_float (float_of_str example_env) (dict_get ?data ''rational_weight'' (PyInt 50)) = Inr 30"
    by (simp add: dict_get_def)
  have e: "example_cache ''X'' = Some (example_entry, 0)"
    by (simp add: example_cache_def)
  have t: "now_lookup example_env - 0 < CACHE_DURATION"
    by (simp add: example_env_def CACHE_DURATION_def)
  have v: "recombine (30 / 100) example_entry
     = example_entry\<lparr>combined_score := - 15, recommendation := ''BUY'', signal_class := ''buy'',
                      rational_weight := 3 / 10, adaptive_weight := 7 / 10\<rparr>"
    by (simp add: recombine_def example_entry_def combine_def recommend_def py_round2_def
        round_half_even_def Let_def)
  have s: "rational_score example_entry = - 50" "rational_reasons example_entry = []"
    by (simp_all add: example_entry_def)
  from cache_hit_frame [where c = example_cache, OF tk ne x e t refl]
  have "snd (analyze example_env (Inr ?data) example_cache)
          = example_cache(''X'' \<mapsto> (recombine (30 / 100) example_entry, 0)) \<and>
        rational_score (recombine (30 / 100) example_entry) = rational_score example_entry \<and>
        rational_reasons (recombine (30 / 100) example_entry) = rational_reasons example_entry"
    by blast
  then show ?thesis
    using tk x e t v s by (simp add: example_request_def dict_get_def)
qed

section \<open>Failure responses\<close>

lemma analyze_try_raises:
  "analyze_try ev (Inl e) c = Inl e"
  "upper_strip (dict_get data ''ticker'' (PyStr [])) = Inl e \<Longrightarrow> analyze_try ev (Inr data) c = Inl e"
  "upper_strip (dict_get data ''ticker'' (PyStr [])) = Inr tk \<Longrightarrow>
     py_float (float_of_str ev) (dict_get data ''rational_weight'' (PyInt 50)) = Inl e \<Longrightarrow>
     analyze_try ev (Inr data) c = Inl e"
  by (simp_all add: analyze_try_def)








end
